theory Spec2Isabelle
  imports Complex_Main "HOL-Library.AList"
begin

section \<open>Python values, graph objects and the interpreter state\<close>

text \<open>
  Node identifiers are hashable Python values; the keys of the returned dictionaries are
  Python integers, so both live in one type.
\<close>

datatype pyval = PyInt int | PyStr string

text \<open>
  The runtime class of a graph object: the four NetworkX classes, or a user-defined
  subclass (its name and its direct base class).  \<open>type(G) == nx.MultiGraph\<close> is equality
  on this type.
\<close>

datatype nx_class = Graph | DiGraph | MultiGraph | MultiDiGraph | Subclass string nx_class

fun nx_base :: "nx_class \<Rightarrow> nx_class" where
  "nx_base (Subclass name c) = nx_base c"
| "nx_base c = c"

text \<open>
  A graph object: its class, its nodes in iteration order, and its edges.  An edge carries
  the value of its \<open>weight\<close> attribute when it has one.  An undirected edge is stored once.
\<close>

record graph =
  gclass :: nx_class
  nodes :: "pyval list"
  edges :: "(pyval \<times> pyval \<times> real option) list"

datatype error = ImportError string | Exception string

text \<open>
  The interpreter state: the modules that can be imported, the graph objects by reference,
  and the first reference not yet in use.
\<close>

record pystate =
  modules :: "string set"
  heap :: "nat \<Rightarrow> graph"
  next_ref :: nat

section \<open>The graph collaborator\<close>

text \<open>
  Modelled from the spec: the graph class of NetworkX is not among the sources.  The spec
  names its queries: "is this graph directed?", "does it contain parallel edges?" (a graph
  that permits parallel edges is a multigraph), and "for every undirected edge \<open>{u, v}\<close>,
  synthesize directed edges \<open>u \<rightarrow> v\<close> and \<open>v \<rightarrow> u\<close>", a self-loop being kept once.
  A subclass inherits the answers of its base class.
\<close>

definition is_directed :: "graph \<Rightarrow> bool" where
  "is_directed G = (nx_base (gclass G) = DiGraph \<or> nx_base (gclass G) = MultiDiGraph)"

definition is_multigraph :: "graph \<Rightarrow> bool" where
  "is_multigraph G = (nx_base (gclass G) = MultiGraph \<or> nx_base (gclass G) = MultiDiGraph)"

definition joins :: "graph \<Rightarrow> pyval \<Rightarrow> pyval \<Rightarrow> pyval \<times> pyval \<times> real option \<Rightarrow> bool" where
  "joins G u v e = (case e of (a, b, w) \<Rightarrow> (a = u \<and> b = v) \<or> (\<not> is_directed G \<and> a = v \<and> b = u))"

definition has_parallel_edges :: "graph \<Rightarrow> bool" where
  "has_parallel_edges G = list_ex (\<lambda>(u, v, w). 1 < length (filter (joins G u v) (edges G))) (edges G)"

definition directed_edges :: "(pyval \<times> pyval \<times> real option) list \<Rightarrow> (pyval \<times> pyval \<times> real option) list" where
  "directed_edges es = concat (map (\<lambda>(u, v, w). if u = v then [(u, v, w)] else [(u, v, w), (v, u, w)]) es)"

text \<open>
  Modelled from the spec: \<open>G.to_directed()\<close> builds a new graph object and leaves \<open>G\<close> alone
  ("Side effects: none; purely a read + transform").  The new object takes the first unused
  reference.
\<close>

definition to_directed :: "nat \<Rightarrow> pystate \<Rightarrow> nat \<times> pystate" where
  "to_directed G s =
     (let g = heap s G;
          D = \<lparr>gclass = (if is_multigraph g then MultiDiGraph else DiGraph),
               nodes = nodes g,
               edges = (if is_directed g then edges g else directed_edges (edges g))\<rparr>;
          r = next_ref s
      in (r, s\<lparr>heap := (heap s)(r := D), next_ref := Suc r\<rparr>))"

section \<open>Arrays\<close>

text \<open>
  A floating-point number of the array library: a finite value, an infinity or NaN.
  Finite values are real numbers: rounding, overflow and the sign of zero are not modelled.
  Division by zero raises nothing: it gives NaN for \<open>0/0\<close> and an infinity otherwise.
\<close>

datatype np_float = Fin real | PInf | NInf | NaN

fun np_add :: "np_float \<Rightarrow> np_float \<Rightarrow> np_float" where
  "np_add NaN y = NaN"
| "np_add x NaN = NaN"
| "np_add (Fin x) (Fin y) = Fin (x + y)"
| "np_add PInf NInf = NaN"
| "np_add NInf PInf = NaN"
| "np_add PInf y = PInf"
| "np_add NInf y = NInf"
| "np_add (Fin x) y = y"

fun np_div :: "np_float \<Rightarrow> np_float \<Rightarrow> np_float" where
  "np_div NaN y = NaN"
| "np_div x NaN = NaN"
| "np_div (Fin x) (Fin y) =
     (if y \<noteq> 0 then Fin (x / y) else if x = 0 then NaN else if 0 < x then PInf else NInf)"
| "np_div (Fin x) y = Fin 0"
| "np_div PInf (Fin y) = (if 0 \<le> y then PInf else NInf)"
| "np_div NInf (Fin y) = (if 0 \<le> y then NInf else PInf)"
| "np_div x y = NaN"

type_synonym matrix = "real list list"
type_synonym ndarray = "np_float list list"

definition mk_mat :: "nat \<Rightarrow> nat \<Rightarrow> (nat \<Rightarrow> nat \<Rightarrow> 'a) \<Rightarrow> 'a list list" where
  "mk_mat r c f = map (\<lambda>i. map (\<lambda>j. f i j) [0..<c]) [0..<r]"

definition shape :: "'a list list \<Rightarrow> nat \<times> nat" where
  "shape A = (length A, if A = [] then 0 else length (hd A))"

definition np_transpose :: "'a list list \<Rightarrow> 'a list list" where
  "np_transpose A = mk_mat (snd (shape A)) (fst (shape A)) (\<lambda>i j. A ! j ! i)"

definition eye :: "nat \<Rightarrow> nat \<Rightarrow> matrix" where
  "eye n m = mk_mat n m (\<lambda>i j. if i = j then 1 else 0)"

definition mat_sub :: "matrix \<Rightarrow> matrix \<Rightarrow> matrix" where
  "mat_sub A B = map2 (map2 (-)) A B"

definition scalar_mul :: "real \<Rightarrow> matrix \<Rightarrow> matrix" where
  "scalar_mul k A = map (map ((*) k)) A"

definition mat_mul :: "matrix \<Rightarrow> matrix \<Rightarrow> matrix" where
  "mat_mul A B = mk_mat (length A) (snd (shape B)) (\<lambda>i j. \<Sum>l<length B. A ! i ! l * B ! l ! j)"

fun mat_pow :: "matrix \<Rightarrow> nat \<Rightarrow> matrix" where
  "mat_pow A 0 = eye (length A) (length A)"
| "mat_pow A (Suc m) = mat_mul A (mat_pow A m)"

text \<open>
  Modelled from the spec: the matrix exponential is not among the sources; it is "an
  external dense-matrix-exponential primitive \<open>expm(M)\<close> that returns the matrix exponential
  of \<open>M\<close>", "assumed correct".  Here it is the exponential series, entry by entry.
\<close>

definition expm :: "matrix \<Rightarrow> matrix" where
  "expm A = mk_mat (length A) (length A) (\<lambda>i j. \<Sum>m. mat_pow A m ! i ! j / fact m)"

definition expm1 :: "real \<Rightarrow> real" where
  "expm1 k = exp k - 1"

definition asfloat :: "matrix \<Rightarrow> ndarray" where
  "asfloat A = map (map Fin) A"

definition np_sum :: "np_float list \<Rightarrow> np_float" where
  "np_sum xs = foldr np_add xs (Fin 0)"

definition sum_axis0 :: "ndarray \<Rightarrow> np_float list" where
  "sum_axis0 I = map (\<lambda>j. np_sum (map (\<lambda>row. row ! j) I)) [0..<snd (shape I)]"

definition sum_axis1 :: "ndarray \<Rightarrow> np_float list" where
  "sum_axis1 I = map np_sum I"

definition vec_div :: "np_float list \<Rightarrow> np_float \<Rightarrow> np_float list" where
  "vec_div f s = map (\<lambda>x. np_div x s) f"

definition mat_div :: "ndarray \<Rightarrow> np_float \<Rightarrow> ndarray" where
  "mat_div A s = map (\<lambda>row. vec_div row s) A"

text \<open>
  Modelled from the spec: \<open>nx.adjacency_matrix\<close> is not among the sources.  The spec: a
  square matrix of size \<open>n \<times> n\<close> over the nodes in their iteration order, "weighted if the
  source graph carries edge weights, else 0/1", zero where there is no edge.  Where several
  edges join the same ordered pair their weights are added.
\<close>

definition edge_weight :: "graph \<Rightarrow> pyval \<Rightarrow> pyval \<Rightarrow> real" where
  "edge_weight G u v =
     sum_list (map (\<lambda>(a, b, w). case w of None \<Rightarrow> 1 | Some x \<Rightarrow> x) (filter (joins G u v) (edges G)))"

definition adjacency_matrix :: "graph \<Rightarrow> matrix" where
  "adjacency_matrix G =
     (let nodelist = nodes G; nlen = length nodelist
      in mk_mat nlen nlen (\<lambda>i j. edge_weight G (nodelist ! i) (nodelist ! j)))"

section \<open>Dictionaries\<close>

type_synonym 'v dict = "(pyval \<times> 'v) list"

text \<open>A dictionary comprehension: the pairs are stored in turn, a later key replacing an earlier equal one.\<close>

definition dict_comp :: "(pyval \<times> 'v) list \<Rightarrow> 'v dict" where
  "dict_comp kvs = fold (\<lambda>(k, v) d. AList.update k v d) kvs []"

definition py_range :: "nat \<Rightarrow> pyval list" where
  "py_range j = map (\<lambda>i. PyInt (int i)) [0..<j]"

definition dict_keys :: "'v dict \<Rightarrow> pyval list" where
  "dict_keys d = map fst d"


record result =
  influences :: "np_float dict"
  dependences :: "np_float dict"

section \<open>The two scoring functions\<close>

text \<open>\<open>heatkernel(G, k)\<close> of \<open>heatkernel_alg.py\<close>.\<close>

definition heatkernel :: "nat \<Rightarrow> real \<Rightarrow> pystate \<Rightarrow> (error + result) \<times> pystate" where
  "heatkernel G k s =
     (if ''scipy'' \<notin> modules s then
        (Inl (ImportError ''heatkernel() requires SciPy: http://scipy.org/''), s)
      else if ''scipy.linalg'' \<notin> modules s then
        (Inl (ImportError ''heatkernel() requires scipy.linalg: http://scipy.org''), s)
      else if ''scipy.linalg.matfuncs'' \<notin> modules s then
        (Inl (ImportError ''heatkernel() requires scipy.linalg.matfuncs: http://scipy.org''), s)
      else if gclass (heap s G) = MultiGraph \<or> gclass (heap s G) = MultiDiGraph then
        (Inl (Exception ''heatkernel() not defined for graphs with multiedges.''), s)
      else
        let (D, s1) = (if \<not> is_directed (heap s G) then to_directed G s else (G, s));
            A = adjacency_matrix (heap s1 D);
            A = np_transpose A;
            j = snd (shape A);
            I = asfloat (expm (scalar_mul k (mat_sub A (eye j j))));
            f = sum_axis0 I;
            f = vec_div f (np_sum f);
            d = sum_axis1 I;
            d = vec_div d (np_sum d);
            fdict = dict_comp (map (\<lambda>(number, i). (i, number)) (zip f (py_range j)));
            ddict = dict_comp (map (\<lambda>(number, i). (i, number)) (zip d (py_range j)))
        in (Inr \<lparr>influences = fdict, dependences = ddict\<rparr>, s1))"

text \<open>\<open>pwp(G, k)\<close> of \<open>pwp_alg.py\<close>.\<close>

definition pwp :: "nat \<Rightarrow> real \<Rightarrow> pystate \<Rightarrow> (error + result) \<times> pystate" where
  "pwp G k s =
     (if ''scipy'' \<notin> modules s then
        (Inl (ImportError ''pwp() requires SciPy: http://scipy.org/''), s)
      else if ''scipy.linalg'' \<notin> modules s then
        (Inl (ImportError ''pwp() requires scipy.linalg: http://scipy.org''), s)
      else if ''scipy.linalg.matfuncs'' \<notin> modules s then
        (Inl (ImportError ''pwp() requires scipy.linalg.matfuncs: http://scipy.org''), s)
      else if gclass (heap s G) = MultiGraph \<or> gclass (heap s G) = MultiDiGraph then
        (Inl (Exception ''pwp() not defined for graphs with multiedges.''), s)
      else
        let (D, s1) = (if \<not> is_directed (heap s G) then to_directed G s else (G, s));
            A = adjacency_matrix (heap s1 D);
            A = np_transpose A;
            j = snd (shape A);
            I = mat_div (asfloat (mat_sub (expm (scalar_mul k A)) (eye j j))) (Fin (expm1 k));
            f = sum_axis0 I;
            f = vec_div f (np_sum f);
            d = sum_axis1 I;
            d = vec_div d (np_sum d);
            fdict = dict_comp (map (\<lambda>(number, i). (i, number)) (zip f (py_range j)));
            ddict = dict_comp (map (\<lambda>(number, i). (i, number)) (zip d (py_range j)))
        in (Inr \<lparr>influences = fdict, dependences = ddict\<rparr>, s1))"

section \<open>Preconditions of a call\<close>

text \<open>The three imports at the head of both functions succeed.\<close>

definition imports_ok :: "pystate \<Rightarrow> bool" where
  "imports_ok s = (''scipy'' \<in> modules s \<and> ''scipy.linalg'' \<in> modules s \<and> ''scipy.linalg.matfuncs'' \<in> modules s)"

text \<open>The imports succeed and the class of the graph passes the check of line 73 (72 in \<open>pwp\<close>).\<close>

definition accepted :: "pystate \<Rightarrow> nat \<Rightarrow> bool" where
  "accepted s G = (imports_ok s \<and> gclass (heap s G) \<noteq> MultiGraph \<and> gclass (heap s G) \<noteq> MultiDiGraph)"

text \<open>The graph object \<open>D\<close> the adjacency matrix is taken from: \<open>G\<close> itself when it is directed.\<close>

definition prepared :: "pystate \<Rightarrow> nat \<Rightarrow> graph" where
  "prepared s G = (if \<not> is_directed (heap s G) then heap (snd (to_directed G s)) (fst (to_directed G s)) else heap s G)"

section \<open>The pipeline in the words of the spec\<close>

text \<open>
  Section 4 of the spec, entry by entry.  The transposed adjacency matrix: "\<open>A\<^sup>t[i][j]\<close>
  represents influence flowing into \<open>i\<close> from \<open>j\<close>".
\<close>

definition spec_matrix_t :: "graph \<Rightarrow> nat \<Rightarrow> nat \<Rightarrow> real" where
  "spec_matrix_t D i j = edge_weight D (nodes D ! j) (nodes D ! i)"

definition spec_identity :: "nat \<Rightarrow> nat \<Rightarrow> real" where
  "spec_identity i j = (if i = j then 1 else 0)"

text \<open>Heat kernel: \<open>T = expm(k \<cdot> (matrix_t - I))\<close>.\<close>

definition spec_T_heat :: "graph \<Rightarrow> real \<Rightarrow> nat \<Rightarrow> nat \<Rightarrow> real" where
  "spec_T_heat D k i j =
     expm (mk_mat (length (nodes D)) (length (nodes D))
            (\<lambda>i j. k * (spec_matrix_t D i j - spec_identity i j))) ! i ! j"

text \<open>PWP: \<open>T = (expm(k \<cdot> matrix_t) - I) / (exp(k) - 1)\<close>, a quotient of reals, for \<open>k \<noteq> 0\<close>.\<close>

definition spec_expm_kA :: "graph \<Rightarrow> real \<Rightarrow> nat \<Rightarrow> nat \<Rightarrow> real" where
  "spec_expm_kA D k i j =
     expm (mk_mat (length (nodes D)) (length (nodes D)) (\<lambda>i j. k * spec_matrix_t D i j)) ! i ! j"


text \<open>
  "Reduce \<open>T\<close> along axis 0 (sum over rows, i.e. column sums)", "along axis 1 (sum over
  columns, i.e. row sums)", and "\<open>f := f / sum(f)\<close>" with the division of the array library.
\<close>

definition spec_reduce_axis0 :: "nat \<Rightarrow> (nat \<Rightarrow> nat \<Rightarrow> real) \<Rightarrow> nat \<Rightarrow> real" where
  "spec_reduce_axis0 n T j = (\<Sum>i<n. T i j)"

definition spec_reduce_axis1 :: "nat \<Rightarrow> (nat \<Rightarrow> nat \<Rightarrow> real) \<Rightarrow> nat \<Rightarrow> real" where
  "spec_reduce_axis1 n T i = (\<Sum>j<n. T i j)"

definition spec_normalize :: "nat \<Rightarrow> (nat \<Rightarrow> real) \<Rightarrow> np_float list" where
  "spec_normalize n v = map (\<lambda>i. np_div (Fin (v i)) (Fin (\<Sum>l<n. v l))) [0..<n]"

text \<open>The multiple \<open>c \<cdot> I\<close> of the identity matrix.\<close>

definition scalar_mat :: "nat \<Rightarrow> real \<Rightarrow> matrix" where
  "scalar_mat n c = mk_mat n n (\<lambda>i j. if i = j then c else 0)"

section \<open>Concrete inputs\<close>

definition scipy_modules :: "string set" where
  "scipy_modules = {''scipy'', ''scipy.linalg'', ''scipy.linalg.matfuncs''}"

text \<open>SciPy is installed and reference 0 holds the graph \<open>g\<close>.\<close>

definition state_of :: "graph \<Rightarrow> pystate" where
  "state_of g = \<lparr>modules = scipy_modules, heap = (\<lambda>r. g), next_ref = 1\<rparr>"

text \<open>\<open>nx.DiGraph([(0, 1)])\<close>.\<close>

definition digraph_01 :: graph where
  "digraph_01 = \<lparr>gclass = DiGraph, nodes = [PyInt 0, PyInt 1], edges = [(PyInt 0, PyInt 1, None)]\<rparr>"

text \<open>The undirected graph on the nodes 0, 1, 2 with no edges.\<close>

definition edgeless3 :: graph where
  "edgeless3 = \<lparr>gclass = Graph, nodes = [PyInt 0, PyInt 1, PyInt 2], edges = []\<rparr>"

text \<open>A directed graph on the nodes \<open>'a'\<close> and \<open>'b'\<close> with no edges.\<close>

definition named_pair :: graph where
  "named_pair = \<lparr>gclass = DiGraph, nodes = [PyStr ''a'', PyStr ''b''], edges = []\<rparr>"

text \<open>An instance of \<open>class RoadNetwork(nx.MultiGraph)\<close> with two parallel edges between 0 and 1.\<close>

definition road_network :: graph where
  "road_network = \<lparr>gclass = Subclass ''RoadNetwork'' MultiGraph, nodes = [PyInt 0, PyInt 1],
     edges = [(PyInt 0, PyInt 1, None), (PyInt 0, PyInt 1, None)]\<rparr>"

text \<open>An instance of \<open>nx.MultiGraph\<close> itself with the same nodes and edges.\<close>

definition exact_multigraph :: graph where
  "exact_multigraph = \<lparr>gclass = MultiGraph, nodes = [PyInt 0, PyInt 1],
     edges = [(PyInt 0, PyInt 1, None), (PyInt 0, PyInt 1, None)]\<rparr>"

section \<open>Arrays built from their entries\<close>

lemma length_mk_mat: "length (mk_mat r c f) = r"
  by (simp add: mk_mat_def)

lemma nth_mk_mat: "i < r \<Longrightarrow> mk_mat r c f ! i = map (f i) [0..<c]"
  by (simp add: mk_mat_def)

lemma nth_nth_mk_mat: "i < r \<Longrightarrow> j < c \<Longrightarrow> mk_mat r c f ! i ! j = f i j"
  by (simp add: mk_mat_def)

lemma shape_mk_mat: "shape (mk_mat n n f) = (n, n)"
  by (cases n) (simp_all add: shape_def mk_mat_def hd_map upt_conv_Cons del: upt_Suc)

lemma mk_mat_cong:
  "r = r' \<Longrightarrow> c = c' \<Longrightarrow> (\<And>i j. i < r' \<Longrightarrow> j < c' \<Longrightarrow> f i j = g i j) \<Longrightarrow> mk_mat r c f = mk_mat r' c' g"
  by (simp add: mk_mat_def)

lemma np_sum_Fin: "np_sum (map (\<lambda>i. Fin (g i)) xs) = Fin (sum_list (map g xs))"
  by (induction xs) (simp_all add: np_sum_def)

lemma sum_list_upt: "sum_list (map g [0..<n]) = (\<Sum>i<n. g i)"
  by (simp add: sum_list_sum_nth atLeast0LessThan)

lemma np_sum_Fin_upt: "np_sum (map (\<lambda>i. Fin (g i)) [0..<n]) = Fin (\<Sum>i<n. g i)"
  by (simp add: np_sum_Fin sum_list_upt)

lemma fold_update_fresh:
  "distinct (map fst (acc @ kvs)) \<Longrightarrow> fold (\<lambda>(k, v) d. AList.update k v d) kvs acc = acc @ kvs"
proof (induction kvs arbitrary: acc)
  case Nil
  then show ?case by simp
next
  case (Cons p kvs)
  obtain k v where p: "p = (k, v)" by (cases p)
  from Cons.prems have fresh: "k \<notin> fst ` set acc" by (auto simp: p)
  then have upd: "AList.update k v acc = acc @ [(k, v)]"
    by (induction acc) auto
  from Cons.prems have "distinct (map fst ((acc @ [(k, v)]) @ kvs))" by (simp add: p)
  from Cons.IH [OF this] show ?case by (simp add: p upd)
qed

lemma dict_comp_distinct: "distinct (map fst kvs) \<Longrightarrow> dict_comp kvs = kvs"
  using fold_update_fresh [of "[]" kvs] by (simp add: dict_comp_def)

lemma distinct_py_range: "distinct (py_range j)"
  by (simp add: py_range_def distinct_map inj_on_def)

lemma length_py_range: "length (py_range j) = j"
  by (simp add: py_range_def)

lemma dict_of_vector:
  "length f = j \<Longrightarrow> dict_comp (map (\<lambda>(number, i). (i, number)) (zip f (py_range j))) = zip (py_range j) f"
proof -
  assume len: "length f = j"
  have sw: "map (\<lambda>(number, i). (i, number)) (zip f (py_range j)) = zip (py_range j) f"
    by (simp add: zip_commute [of f] case_prod_unfold comp_def)
  have "distinct (map fst (zip (py_range j) f))"
    using len by (simp add: length_py_range distinct_py_range)
  then show ?thesis by (simp add: sw dict_comp_distinct)
qed

lemma adjacency_matrix_mk:
  "adjacency_matrix D = mk_mat (length (nodes D)) (length (nodes D)) (\<lambda>i j. spec_matrix_t D j i)"
  by (simp add: adjacency_matrix_def Let_def spec_matrix_t_def)

lemma np_transpose_mk: "np_transpose (mk_mat n n a) = mk_mat n n (\<lambda>i j. a j i)"
  by (simp add: np_transpose_def shape_mk_mat nth_nth_mk_mat cong: mk_mat_cong)

lemma eye_mk: "eye n n = mk_mat n n spec_identity"
  unfolding eye_def by (rule mk_mat_cong) (simp_all add: spec_identity_def)

lemma mat_sub_mk: "mat_sub (mk_mat r c a) (mk_mat r c b) = mk_mat r c (\<lambda>i j. a i j - b i j)"
  by (simp add: mat_sub_def mk_mat_def map2_map_map)

lemma scalar_mul_mk: "scalar_mul k (mk_mat r c a) = mk_mat r c (\<lambda>i j. k * a i j)"
  by (simp add: scalar_mul_def mk_mat_def)

lemma expm_mk: "expm (mk_mat n n a) = mk_mat n n (\<lambda>i j. expm (mk_mat n n a) ! i ! j)"
  by (simp add: expm_def length_mk_mat nth_nth_mk_mat cong: mk_mat_cong)

lemma asfloat_mk: "asfloat (mk_mat r c e) = mk_mat r c (\<lambda>i j. Fin (e i j))"
  by (simp add: asfloat_def mk_mat_def)

lemma mat_div_mk: "mat_div (mk_mat r c F) x = mk_mat r c (\<lambda>i j. np_div (F i j) x)"
  by (simp add: mat_div_def vec_div_def mk_mat_def)

lemma sum_axis0_mk:
  "sum_axis0 (mk_mat n n F) = map (\<lambda>j. np_sum (map (\<lambda>i. F i j) [0..<n])) [0..<n]"
  by (simp add: sum_axis0_def shape_mk_mat) (simp add: mk_mat_def comp_def)

lemma sum_axis1_mk:
  "sum_axis1 (mk_mat n n F) = map (\<lambda>i. np_sum (map (F i) [0..<n])) [0..<n]"
  by (simp add: sum_axis1_def mk_mat_def comp_def)

lemma normalize_axis0:
  "vec_div (sum_axis0 (mk_mat n n (\<lambda>i j. Fin (T i j)))) (np_sum (sum_axis0 (mk_mat n n (\<lambda>i j. Fin (T i j)))))
     = spec_normalize n (spec_reduce_axis0 n T)"
  by (simp add: sum_axis0_mk np_sum_Fin_upt vec_div_def spec_normalize_def spec_reduce_axis0_def comp_def)

lemma normalize_axis1:
  "vec_div (sum_axis1 (mk_mat n n (\<lambda>i j. Fin (T i j)))) (np_sum (sum_axis1 (mk_mat n n (\<lambda>i j. Fin (T i j)))))
     = spec_normalize n (spec_reduce_axis1 n T)"
  by (simp add: sum_axis1_mk np_sum_Fin_upt vec_div_def spec_normalize_def spec_reduce_axis1_def comp_def)

lemma length_spec_normalize: "length (spec_normalize n v) = n"
  by (simp add: spec_normalize_def)

lemma nodes_prepared: "nodes (prepared s G) = nodes (heap s G)"
  by (simp add: prepared_def to_directed_def Let_def)

lemma heat_matrix:
  "asfloat (expm (scalar_mul k (mat_sub (np_transpose (adjacency_matrix D))
       (eye (length (nodes D)) (length (nodes D))))))
     = mk_mat (length (nodes D)) (length (nodes D)) (\<lambda>i j. Fin (spec_T_heat D k i j))"
proof -
  let ?n = "length (nodes D)"
  have "scalar_mul k (mat_sub (np_transpose (adjacency_matrix D)) (eye ?n ?n))
          = mk_mat ?n ?n (\<lambda>i j. k * (spec_matrix_t D i j - spec_identity i j))"
    by (simp add: adjacency_matrix_mk np_transpose_mk eye_mk mat_sub_mk scalar_mul_mk)
  then show ?thesis
    by (simp add: spec_T_heat_def asfloat_mk [symmetric]) (simp add: expm_mk [symmetric])
qed

lemma shape_prepared:
  "snd (shape (np_transpose (adjacency_matrix D))) = length (nodes D)"
  by (simp add: adjacency_matrix_mk np_transpose_mk shape_mk_mat)

lemma heatkernel_normal_form:
  assumes "accepted s G"
  shows "fst (heatkernel G k s) =
     Inr \<lparr>influences = zip (py_range (length (nodes (heap s G))))
             (spec_normalize (length (nodes (heap s G)))
               (spec_reduce_axis0 (length (nodes (heap s G))) (spec_T_heat (prepared s G) k))),
          dependences = zip (py_range (length (nodes (heap s G))))
             (spec_normalize (length (nodes (heap s G)))
               (spec_reduce_axis1 (length (nodes (heap s G))) (spec_T_heat (prepared s G) k)))\<rparr>"
proof -
  let ?D = "prepared s G"
  let ?n = "length (nodes ?D)"
  let ?I = "asfloat (expm (scalar_mul k (mat_sub (np_transpose (adjacency_matrix ?D)) (eye ?n ?n))))"
  let ?f = "vec_div (sum_axis0 ?I) (np_sum (sum_axis0 ?I))"
  let ?d = "vec_div (sum_axis1 ?I) (np_sum (sum_axis1 ?I))"
  have run: "fst (heatkernel G k s) =
      Inr \<lparr>influences = dict_comp (map (\<lambda>(number, i). (i, number)) (zip ?f (py_range ?n))),
           dependences = dict_comp (map (\<lambda>(number, i). (i, number)) (zip ?d (py_range ?n)))\<rparr>"
    using assms
    by (simp add: heatkernel_def accepted_def imports_ok_def Let_def prepared_def shape_prepared
          split: prod.split)
  have f: "?f = spec_normalize ?n (spec_reduce_axis0 ?n (spec_T_heat ?D k))"
    by (simp only: heat_matrix normalize_axis0)
  have d: "?d = spec_normalize ?n (spec_reduce_axis1 ?n (spec_T_heat ?D k))"
    by (simp only: heat_matrix normalize_axis1)
  have "fst (heatkernel G k s) =
      Inr \<lparr>influences = zip (py_range ?n) (spec_normalize ?n (spec_reduce_axis0 ?n (spec_T_heat ?D k))),
           dependences = zip (py_range ?n) (spec_normalize ?n (spec_reduce_axis1 ?n (spec_T_heat ?D k)))\<rparr>"
    unfolding run f d by (simp only: dict_of_vector [OF length_spec_normalize])
  then show ?thesis
    by (simp only: nodes_prepared)
qed

lemma length_scalar_mat: "length (scalar_mat n c) = n"
  by (simp add: scalar_mat_def length_mk_mat)

lemma shape_scalar_mat: "shape (scalar_mat n c) = (n, n)"
  by (simp add: scalar_mat_def shape_mk_mat)

lemma nth_scalar_mat: "i < n \<Longrightarrow> j < n \<Longrightarrow> scalar_mat n c ! i ! j = (if i = j then c else 0)"
  by (simp add: scalar_mat_def nth_nth_mk_mat)

lemma mat_mul_scalar_mat: "mat_mul (scalar_mat n c) (scalar_mat n e) = scalar_mat n (c * e)"
proof -
  have entry: "(\<Sum>l<n. scalar_mat n c ! i ! l * scalar_mat n e ! l ! j) = (if i = j then c * e else 0)"
    if "i < n" "j < n" for i j
  proof -
    have "(\<Sum>l<n. scalar_mat n c ! i ! l * scalar_mat n e ! l ! j)
            = (\<Sum>l<n. if l = i then c * (if i = j then e else 0) else 0)"
      using that by (intro sum.cong) (auto simp: nth_scalar_mat)
    also have "\<dots> = c * (if i = j then e else 0)"
      using that by (simp add: sum.delta)
    finally show ?thesis by simp
  qed
  show ?thesis
    unfolding mat_mul_def length_scalar_mat shape_scalar_mat snd_conv
    unfolding scalar_mat_def [of n "c * e"]
    by (rule mk_mat_cong) (simp_all add: entry)
qed

lemma mat_pow_scalar_mat: "mat_pow (scalar_mat n c) m = scalar_mat n (c ^ m)"
proof (induction m)
  case 0
  show ?case by (simp add: length_scalar_mat eye_def) (simp add: scalar_mat_def)
next
  case (Suc m)
  then show ?case by (simp add: mat_mul_scalar_mat)
qed

lemma exp_series_real: "(\<Sum>m. c ^ m / fact m) = exp (c::real)"
  by (simp add: exp_def divide_inverse mult.commute)

lemma expm_scalar_mat: "expm (scalar_mat n c) = scalar_mat n (exp c)"
proof -
  have entry: "(\<Sum>m. mat_pow (scalar_mat n c) m ! i ! j / fact m) = (if i = j then exp c else 0)"
    if "i < n" "j < n" for i j
    using that by (simp add: mat_pow_scalar_mat nth_scalar_mat exp_series_real)
  show ?thesis
    unfolding expm_def length_scalar_mat
    unfolding scalar_mat_def [of n "exp c"]
    by (rule mk_mat_cong) (simp_all add: entry)
qed

lemma pwp_matrix:
  "mat_div (asfloat (mat_sub (expm (scalar_mul k (np_transpose (adjacency_matrix D))))
       (eye (length (nodes D)) (length (nodes D))))) (Fin (expm1 k))
     = mk_mat (length (nodes D)) (length (nodes D))
         (\<lambda>i j. np_div (Fin (spec_expm_kA D k i j - spec_identity i j)) (Fin (exp k - 1)))"
proof -
  let ?n = "length (nodes D)"
  have "scalar_mul k (np_transpose (adjacency_matrix D)) = mk_mat ?n ?n (\<lambda>i j. k * spec_matrix_t D i j)"
    by (simp add: adjacency_matrix_mk np_transpose_mk scalar_mul_mk)
  then have "expm (scalar_mul k (np_transpose (adjacency_matrix D))) = mk_mat ?n ?n (spec_expm_kA D k)"
    unfolding spec_expm_kA_def by (simp add: expm_mk [symmetric])
  then show ?thesis
    by (simp add: eye_mk mat_sub_mk asfloat_mk mat_div_mk expm1_def)
qed


lemma pwp_run:
  assumes "accepted s G"
  shows "fst (pwp G k s) =
      Inr \<lparr>influences = dict_comp (map (\<lambda>(number, i). (i, number))
              (zip (vec_div (sum_axis0 (mat_div (asfloat (mat_sub (expm (scalar_mul k (np_transpose (adjacency_matrix (prepared s G)))))
                      (eye (length (nodes (prepared s G))) (length (nodes (prepared s G)))))) (Fin (expm1 k))))
                    (np_sum (sum_axis0 (mat_div (asfloat (mat_sub (expm (scalar_mul k (np_transpose (adjacency_matrix (prepared s G)))))
                      (eye (length (nodes (prepared s G))) (length (nodes (prepared s G)))))) (Fin (expm1 k))))))
                (py_range (length (nodes (prepared s G)))))),
           dependences = dict_comp (map (\<lambda>(number, i). (i, number))
              (zip (vec_div (sum_axis1 (mat_div (asfloat (mat_sub (expm (scalar_mul k (np_transpose (adjacency_matrix (prepared s G)))))
                      (eye (length (nodes (prepared s G))) (length (nodes (prepared s G)))))) (Fin (expm1 k))))
                    (np_sum (sum_axis1 (mat_div (asfloat (mat_sub (expm (scalar_mul k (np_transpose (adjacency_matrix (prepared s G)))))
                      (eye (length (nodes (prepared s G))) (length (nodes (prepared s G)))))) (Fin (expm1 k))))))
                (py_range (length (nodes (prepared s G))))))\<rparr>"
  using assms
  by (simp add: pwp_def accepted_def imports_ok_def Let_def prepared_def shape_prepared
        split: prod.split)


lemma scalar_mat_cong:
  "(\<And>i j. i < n \<Longrightarrow> j < n \<Longrightarrow> f i j = (if i = j then c else 0)) \<Longrightarrow> mk_mat n n f = scalar_mat n c"
  unfolding scalar_mat_def by (rule mk_mat_cong) simp_all

lemma reduce_axis0_scalar:
  assumes "\<And>i j. i < n \<Longrightarrow> j < n \<Longrightarrow> T i j = (if i = j then c else 0)" and "j < n"
  shows "spec_reduce_axis0 n T j = c"
proof -
  have "(\<Sum>i<n. T i j) = (\<Sum>i<n. if i = j then c else 0)"
    using assms by (intro sum.cong) simp_all
  also have "\<dots> = c" using assms(2) by simp
  finally show ?thesis by (simp add: spec_reduce_axis0_def)
qed

lemma reduce_axis1_scalar:
  assumes "\<And>i j. i < n \<Longrightarrow> j < n \<Longrightarrow> T i j = (if i = j then c else 0)" and "i < n"
  shows "spec_reduce_axis1 n T i = c"
proof -
  have "(\<Sum>j<n. T i j) = (\<Sum>j<n. if i = j then c else 0)"
    using assms by (intro sum.cong) simp_all
  also have "\<dots> = c" using assms(2) by simp
  finally show ?thesis by (simp add: spec_reduce_axis1_def)
qed

lemma normalize_constant:
  assumes "\<And>i. i < n \<Longrightarrow> v i = c" and "c \<noteq> 0"
  shows "spec_normalize n v = replicate n (Fin (1 / real n))"
proof -
  have total: "(\<Sum>l<n. v l) = real n * c"
    using assms(1) by simp
  have "np_div (Fin (v i)) (Fin (\<Sum>l<n. v l)) = Fin (1 / real n)" if "i < n" for i
  proof -
    from that have "real n * c \<noteq> 0" using assms(2) by simp
    then show ?thesis using that assms by (simp add: total)
  qed
  then have "spec_normalize n v = map (\<lambda>i. Fin (1 / real n)) [0..<n]"
    unfolding spec_normalize_def by (intro map_cong) simp_all
  then show ?thesis by (simp add: map_replicate_const)
qed

lemma uniform_of_scalar:
  assumes "\<And>i j. i < n \<Longrightarrow> j < n \<Longrightarrow> T i j = (if i = j then c else 0)" and "c \<noteq> 0"
  shows "spec_normalize n (spec_reduce_axis0 n T) = replicate n (Fin (1 / real n))"
    and "spec_normalize n (spec_reduce_axis1 n T) = replicate n (Fin (1 / real n))"
  using assms by (simp_all add: normalize_constant [where c = c] reduce_axis0_scalar [where c = c]
      reduce_axis1_scalar [where c = c])

lemma spec_T_heat_zero:
  assumes "i < length (nodes D)" "j < length (nodes D)"
  shows "spec_T_heat D 0 i j = (if i = j then 1 else 0)"
proof -
  have "mk_mat (length (nodes D)) (length (nodes D)) (\<lambda>i j. 0 * (spec_matrix_t D i j - spec_identity i j))
          = scalar_mat (length (nodes D)) 0"
    by (rule scalar_mat_cong) simp
  then show ?thesis
    using assms by (simp add: spec_T_heat_def expm_scalar_mat nth_scalar_mat)
qed

lemma edges_prepared_empty: "edges (heap s G) = [] \<Longrightarrow> edges (prepared s G) = []"
  by (simp add: prepared_def to_directed_def Let_def directed_edges_def)

lemma spec_matrix_t_edgeless: "edges D = [] \<Longrightarrow> spec_matrix_t D i j = 0"
  by (simp add: spec_matrix_t_def edge_weight_def)

lemma spec_T_heat_edgeless:
  assumes "edges D = []" "i < length (nodes D)" "j < length (nodes D)"
  shows "spec_T_heat D k i j = (if i = j then exp (- k) else 0)"
proof -
  have "mk_mat (length (nodes D)) (length (nodes D)) (\<lambda>i j. k * (spec_matrix_t D i j - spec_identity i j))
          = scalar_mat (length (nodes D)) (- k)"
    by (rule scalar_mat_cong) (simp add: spec_matrix_t_edgeless [OF assms(1)] spec_identity_def)
  then show ?thesis
    using assms by (simp add: spec_T_heat_def expm_scalar_mat nth_scalar_mat)
qed

lemma heatkernel_edgeless:
  assumes "accepted s G" and "edges (heap s G) = []"
  shows "fst (heatkernel G k s) =
     Inr \<lparr>influences = zip (py_range (length (nodes (heap s G))))
             (replicate (length (nodes (heap s G))) (Fin (1 / real (length (nodes (heap s G)))))),
          dependences = zip (py_range (length (nodes (heap s G))))
             (replicate (length (nodes (heap s G))) (Fin (1 / real (length (nodes (heap s G))))))\<rparr>"
proof -
  have T: "spec_T_heat (prepared s G) k i j = (if i = j then exp (- k) else 0)"
    if "i < length (nodes (heap s G))" "j < length (nodes (heap s G))" for i j
    using that spec_T_heat_edgeless [OF edges_prepared_empty [OF assms(2)], of i j k]
    by (simp add: nodes_prepared)
  show ?thesis
    unfolding heatkernel_normal_form [OF assms(1)]
    by (simp add: uniform_of_scalar [where c = "exp (- k)", OF T])
qed

lemma np_sum_replicate_NaN: "0 < m \<Longrightarrow> np_sum (replicate m NaN) = NaN"
  by (cases m) (simp_all add: np_sum_def)

lemma np_sum_replicate_zero: "np_sum (replicate m (Fin 0)) = Fin 0"
  by (induction m) (simp_all add: np_sum_def)

lemma np_sum_degenerate:
  assumes "c = NaN \<or> c = Fin 0" and "0 < m"
  shows "np_sum (replicate m c) = c"
  using assms by (auto simp: np_sum_replicate_NaN np_sum_replicate_zero)

lemma np_div_degenerate: "c = NaN \<or> c = Fin 0 \<Longrightarrow> np_div c c = NaN"
  by auto

lemma nan_of_constant:
  assumes "c = NaN \<or> c = Fin 0"
  shows "vec_div (sum_axis0 (mk_mat n n (\<lambda>i j. c))) (np_sum (sum_axis0 (mk_mat n n (\<lambda>i j. c)))) = replicate n NaN"
    and "vec_div (sum_axis1 (mk_mat n n (\<lambda>i j. c))) (np_sum (sum_axis1 (mk_mat n n (\<lambda>i j. c)))) = replicate n NaN"
proof -
  have rows: "sum_axis0 (mk_mat n n (\<lambda>i j. c)) = replicate n c \<and> sum_axis1 (mk_mat n n (\<lambda>i j. c)) = replicate n c"
  proof (cases "n = 0")
    case True
    then show ?thesis by (simp add: sum_axis0_mk sum_axis1_mk)
  next
    case False
    then have "np_sum (replicate n c) = c" using assms by (simp add: np_sum_degenerate)
    then show ?thesis by (simp add: sum_axis0_mk sum_axis1_mk map_replicate_const)
  qed
  have "vec_div (replicate n c) (np_sum (replicate n c)) = replicate n NaN"
  proof (cases "n = 0")
    case True
    then show ?thesis by (simp add: vec_div_def)
  next
    case False
    then have "np_sum (replicate n c) = c" using assms by (simp add: np_sum_degenerate)
    then show ?thesis using assms by (simp add: vec_div_def np_div_degenerate)
  qed
  then show "vec_div (sum_axis0 (mk_mat n n (\<lambda>i j. c))) (np_sum (sum_axis0 (mk_mat n n (\<lambda>i j. c)))) = replicate n NaN"
    and "vec_div (sum_axis1 (mk_mat n n (\<lambda>i j. c))) (np_sum (sum_axis1 (mk_mat n n (\<lambda>i j. c)))) = replicate n NaN"
    by (simp_all add: rows)
qed

lemma spec_expm_kA_identity:
  assumes "k = 0 \<or> edges D = []" and "i < length (nodes D)" "j < length (nodes D)"
  shows "spec_expm_kA D k i j = (if i = j then 1 else 0)"
proof -
  have "mk_mat (length (nodes D)) (length (nodes D)) (\<lambda>i j. k * spec_matrix_t D i j)
          = scalar_mat (length (nodes D)) 0"
    using assms(1) by (intro scalar_mat_cong) (auto simp: spec_matrix_t_edgeless)
  then show ?thesis
    using assms by (simp add: spec_expm_kA_def expm_scalar_mat nth_scalar_mat)
qed

lemma pwp_degenerate:
  assumes "accepted s G" and "k = 0 \<or> edges (heap s G) = []"
  shows "fst (pwp G k s) =
     Inr \<lparr>influences = zip (py_range (length (nodes (heap s G)))) (replicate (length (nodes (heap s G))) NaN),
          dependences = zip (py_range (length (nodes (heap s G)))) (replicate (length (nodes (heap s G))) NaN)\<rparr>"
proof -
  let ?D = "prepared s G"
  let ?n = "length (nodes ?D)"
  let ?c = "np_div (Fin 0) (Fin (exp k - 1))"
  have deg: "k = 0 \<or> edges ?D = []"
    using assms(2) by (auto simp: edges_prepared_empty)
  have c: "?c = NaN \<or> ?c = Fin 0" by simp
  have "mk_mat ?n ?n (\<lambda>i j. np_div (Fin (spec_expm_kA ?D k i j - spec_identity i j)) (Fin (exp k - 1)))
          = mk_mat ?n ?n (\<lambda>i j. ?c)"
    by (rule mk_mat_cong) (simp_all only: spec_expm_kA_identity [OF deg] spec_identity_def, simp_all)
  then have "fst (pwp G k s) =
      Inr \<lparr>influences = zip (py_range ?n) (replicate ?n NaN),
           dependences = zip (py_range ?n) (replicate ?n NaN)\<rparr>"
    unfolding pwp_run [OF assms(1)] pwp_matrix
    by (simp only: nan_of_constant [OF c] dict_of_vector [OF length_replicate])
  then show ?thesis
    by (simp only: nodes_prepared)
qed

section \<open>Facts about concrete inputs\<close>

lemma accepted_state_of:
  "gclass g \<noteq> MultiGraph \<Longrightarrow> gclass g \<noteq> MultiDiGraph \<Longrightarrow> accepted (state_of g) r"
  by (simp add: accepted_def imports_ok_def state_of_def scipy_modules_def)

lemma heap_state_of: "heap (state_of g) r = g"
  by (simp add: state_of_def)

lemma py_range_2: "py_range 2 = [PyInt 0, PyInt 1]"
  by (simp add: py_range_def numeral_2_eq_2)

lemma py_range_3: "py_range 3 = [PyInt 0, PyInt 1, PyInt 2]"
  by (simp add: py_range_def numeral_3_eq_3)

lemma replicate_2: "replicate 2 x = [x, x]"
  by (simp add: numeral_2_eq_2)

lemma replicate_3: "replicate 3 x = [x, x, x]"
  by (simp add: numeral_3_eq_3)


section \<open>The exponential of a triangular matrix\<close>





section \<open>Normalization, the final state and the class check\<close>

lemma length_nodes_digraph_01: "length (nodes digraph_01) = 2"
  by (simp add: digraph_01_def)














lemma dict_keys_zip: "length ks = length vs \<Longrightarrow> dict_keys (zip ks vs) = ks"
  by (simp add: dict_keys_def)


lemma length_vec_div: "length (vec_div f x) = length f"
  by (simp add: vec_div_def)

lemma length_sum_axis_mk:
  "length (sum_axis0 (mk_mat n n F)) = n" "length (sum_axis1 (mk_mat n n F)) = n"
  by (simp_all add: sum_axis0_mk sum_axis1_mk)

lemma pwp_general_form:
  assumes "accepted s G"
  shows "\<exists>f d. length f = length (nodes (heap s G)) \<and> length d = length (nodes (heap s G)) \<and>
     fst (pwp G k s) = Inr \<lparr>influences = zip (py_range (length (nodes (heap s G)))) f,
                             dependences = zip (py_range (length (nodes (heap s G)))) d\<rparr>"
proof -
  let ?n = "length (nodes (prepared s G))"
  let ?I = "mk_mat ?n ?n (\<lambda>i j. np_div (Fin (spec_expm_kA (prepared s G) k i j - spec_identity i j)) (Fin (exp k - 1)))"
  let ?f = "vec_div (sum_axis0 ?I) (np_sum (sum_axis0 ?I))"
  let ?d = "vec_div (sum_axis1 ?I) (np_sum (sum_axis1 ?I))"
  have lf: "length ?f = ?n" and ld: "length ?d = ?n"
    by (simp_all only: length_vec_div length_sum_axis_mk)
  have "fst (pwp G k s) = Inr \<lparr>influences = zip (py_range ?n) ?f, dependences = zip (py_range ?n) ?d\<rparr>"
    unfolding pwp_run [OF assms] pwp_matrix
    by (simp only: dict_of_vector [OF lf] dict_of_vector [OF ld])
  with lf ld show ?thesis
    unfolding nodes_prepared by blast
qed

lemma heap_to_directed: "r \<noteq> next_ref s \<Longrightarrow> heap (snd (to_directed G s)) r = heap s r"
  by (simp add: to_directed_def Let_def)

lemma heatkernel_final_state:
  "snd (heatkernel G k s) = s \<or> snd (heatkernel G k s) = snd (to_directed G s)"
  by (simp add: heatkernel_def Let_def case_prod_beta)

lemma pwp_final_state:
  "snd (pwp G k s) = s \<or> snd (pwp G k s) = snd (to_directed G s)"
  by (simp add: pwp_def Let_def case_prod_beta)

lemma heatkernel_rejects_iff:
  "fst (heatkernel G k s) = Inl (Exception ''heatkernel() not defined for graphs with multiedges.'')
     \<longleftrightarrow> imports_ok s \<and> (gclass (heap s G) = MultiGraph \<or> gclass (heap s G) = MultiDiGraph)"
  by (simp add: heatkernel_def imports_ok_def Let_def case_prod_beta)

lemma pwp_rejects_iff:
  "fst (pwp G k s) = Inl (Exception ''pwp() not defined for graphs with multiedges.'')
     \<longleftrightarrow> imports_ok s \<and> (gclass (heap s G) = MultiGraph \<or> gclass (heap s G) = MultiDiGraph)"
  by (simp add: pwp_def imports_ok_def Let_def case_prod_beta)

lemma accepted_returns:
  assumes "accepted s G"
  shows "\<not> isl (fst (heatkernel G k s))" and "\<not> isl (fst (pwp G k s))"
proof -
  show "\<not> isl (fst (heatkernel G k s))"
    by (simp add: heatkernel_normal_form [OF assms])
  from pwp_general_form [OF assms, of k] show "\<not> isl (fst (pwp G k s))"
    by auto
qed

lemma road_network_facts:
  "accepted (state_of road_network) 0" "is_multigraph road_network" "has_parallel_edges road_network"
  by (simp_all add: accepted_state_of road_network_def is_multigraph_def has_parallel_edges_def
      joins_def is_directed_def)
section \<open>The claims\<close>

text \<open>
  C1, as the code has it: \<open>pwp\<close> with \<open>k = 0\<close> raises nothing.  For every graph that passes
  the class check it divides the zero matrix by \<open>expm1(0) = 0\<close> and returns a result in which
  every influence and every dependence is NaN.
\<close>

theorem pwp_zero_returns_nan:
  assumes "accepted s G"
  shows "fst (pwp G 0 s) =
     Inr \<lparr>influences = zip (py_range (length (nodes (heap s G)))) (replicate (length (nodes (heap s G))) NaN),
          dependences = zip (py_range (length (nodes (heap s G)))) (replicate (length (nodes (heap s G))) NaN)\<rparr>"
  using assms by (intro pwp_degenerate) simp_all

theorem pwp_zero_returns_nan_witness:
  "accepted (state_of edgeless3) 0 \<and>
   fst (pwp 0 0 (state_of edgeless3)) =
     Inr \<lparr>influences = [(PyInt 0, NaN), (PyInt 1, NaN), (PyInt 2, NaN)],
          dependences = [(PyInt 0, NaN), (PyInt 1, NaN), (PyInt 2, NaN)]\<rparr>"
proof -
  have a: "accepted (state_of edgeless3) 0"
    by (rule accepted_state_of) (simp_all add: edgeless3_def)
  have n: "length (nodes edgeless3) = 3"
    by (simp add: edgeless3_def)
  show ?thesis
    using a pwp_zero_returns_nan [OF a]
    by (simp add: heap_state_of n py_range_3 replicate_3)
qed

text \<open>
  C1 as stated fails: on \<open>nx.DiGraph([(0, 1)])\<close> the call \<open>pwp(G, 0)\<close> returns a NaN-filled
  result and no error.
\<close>

theorem pwp_zero_no_error_counterexample:
  "fst (pwp 0 0 (state_of digraph_01)) =
     Inr \<lparr>influences = [(PyInt 0, NaN), (PyInt 1, NaN)],
          dependences = [(PyInt 0, NaN), (PyInt 1, NaN)]\<rparr>"
proof -
  have a: "accepted (state_of digraph_01) 0"
    by (rule accepted_state_of) (simp_all add: digraph_01_def)
  have "(0::real) = 0 \<or> edges (heap (state_of digraph_01) 0) = []" by simp
  from pwp_degenerate [OF a this] show ?thesis
    by (simp add: heap_state_of length_nodes_digraph_01 py_range_2 replicate_2)
qed




text \<open>
  C3, as the code has it: for every graph that passes the class check, the keys of
  \<open>influences\<close> and of \<open>dependences\<close> are the matrix indices \<open>0, \<dots>, n - 1\<close> (\<open>range(j)\<close>), with
  \<open>n\<close> the number of nodes, for both functions and every \<open>k\<close>.
\<close>

theorem result_keys_are_indices:
  assumes "accepted s G"
  shows "(\<exists>r. fst (heatkernel G k s) = Inr r
            \<and> dict_keys (influences r) = py_range (length (nodes (heap s G)))
            \<and> dict_keys (dependences r) = py_range (length (nodes (heap s G))))
       \<and> (\<exists>r. fst (pwp G k s) = Inr r
            \<and> dict_keys (influences r) = py_range (length (nodes (heap s G)))
            \<and> dict_keys (dependences r) = py_range (length (nodes (heap s G))))"
proof
  show "\<exists>r. fst (heatkernel G k s) = Inr r
            \<and> dict_keys (influences r) = py_range (length (nodes (heap s G)))
            \<and> dict_keys (dependences r) = py_range (length (nodes (heap s G)))"
    by (simp add: heatkernel_normal_form [OF assms] dict_keys_zip length_py_range length_spec_normalize)
  from pwp_general_form [OF assms, of k]
  show "\<exists>r. fst (pwp G k s) = Inr r
            \<and> dict_keys (influences r) = py_range (length (nodes (heap s G)))
            \<and> dict_keys (dependences r) = py_range (length (nodes (heap s G)))"
    by (auto simp: dict_keys_zip length_py_range)
qed

theorem result_keys_are_indices_witness:
  "accepted (state_of digraph_01) 0 \<and>
   (\<exists>r. fst (heatkernel 0 1 (state_of digraph_01)) = Inr r
      \<and> dict_keys (influences r) = [PyInt 0, PyInt 1] \<and> dict_keys (dependences r) = [PyInt 0, PyInt 1]) \<and>
   (\<exists>r. fst (pwp 0 1 (state_of digraph_01)) = Inr r
      \<and> dict_keys (influences r) = [PyInt 0, PyInt 1] \<and> dict_keys (dependences r) = [PyInt 0, PyInt 1])"
proof -
  have a: "accepted (state_of digraph_01) 0"
    by (rule accepted_state_of) (simp_all add: digraph_01_def)
  show ?thesis
    using a result_keys_are_indices [OF a, of 1]
    by (simp add: heap_state_of length_nodes_digraph_01 py_range_2)
qed

text \<open>
  C3 as stated fails: on the directed graph with the nodes \<open>'a'\<close> and \<open>'b'\<close>, \<open>heatkernel\<close>
  returns mappings whose keys are the integers 0 and 1, not the nodes.
\<close>

theorem result_keys_not_nodes_counterexample:
  "fst (heatkernel 0 1 (state_of named_pair)) =
     Inr \<lparr>influences = [(PyInt 0, Fin (1 / 2)), (PyInt 1, Fin (1 / 2))],
          dependences = [(PyInt 0, Fin (1 / 2)), (PyInt 1, Fin (1 / 2))]\<rparr> \<and>
   set (dict_keys [(PyInt 0, Fin (1 / 2)), (PyInt 1, Fin (1 / 2))]) \<noteq> set (nodes (heap (state_of named_pair) 0))"
proof -
  have a: "accepted (state_of named_pair) 0"
    by (rule accepted_state_of) (simp_all add: named_pair_def)
  have e: "edges (heap (state_of named_pair) 0) = []"
    by (simp add: heap_state_of named_pair_def)
  have n: "length (nodes named_pair) = 2"
    by (simp add: named_pair_def)
  have "PyInt 0 \<in> set (dict_keys [(PyInt 0, Fin (1 / 2)), (PyInt 1, Fin (1 / 2))])"
    by (simp add: dict_keys_def)
  moreover have "PyInt 0 \<notin> set (nodes named_pair)"
    by (simp add: named_pair_def)
  ultimately have "set (dict_keys [(PyInt 0, Fin (1 / 2)), (PyInt 1, Fin (1 / 2))]) \<noteq> set (nodes named_pair)"
    by blast
  then show ?thesis
    using heatkernel_edgeless [OF a e, of 1]
    by (simp add: heap_state_of n py_range_2 replicate_2)
qed





text \<open>
  C6 fails on the code: an instance of a subclass of \<open>nx.MultiGraph\<close> with two parallel edges
  passes the check of the exact class, and both functions go on to return a result.
\<close>

theorem subclass_multigraph_not_rejected:
  "is_multigraph (heap (state_of road_network) 0) \<and> has_parallel_edges (heap (state_of road_network) 0) \<and>
   \<not> isl (fst (heatkernel 0 1 (state_of road_network))) \<and>
   \<not> isl (fst (pwp 0 1 (state_of road_network)))"
  using road_network_facts accepted_returns [OF road_network_facts(1), of 1]
  by (simp add: heap_state_of)



text \<open>
  C8: for a graph on \<open>n\<close> nodes that passes the class check, \<open>heatkernel\<close> with \<open>k = 0\<close>
  returns the uniform distribution: every influence and every dependence is \<open>1/n\<close>.
\<close>

theorem heatkernel_zero_uniform:
  assumes "accepted s G"
  shows "fst (heatkernel G 0 s) =
     Inr \<lparr>influences = zip (py_range (length (nodes (heap s G))))
             (replicate (length (nodes (heap s G))) (Fin (1 / real (length (nodes (heap s G)))))),
          dependences = zip (py_range (length (nodes (heap s G))))
             (replicate (length (nodes (heap s G))) (Fin (1 / real (length (nodes (heap s G))))))\<rparr>"
proof -
  have T: "spec_T_heat (prepared s G) 0 i j = (if i = j then 1 else 0)"
    if "i < length (nodes (heap s G))" "j < length (nodes (heap s G))" for i j
    using that spec_T_heat_zero [of i "prepared s G" j] by (simp add: nodes_prepared)
  show ?thesis
    unfolding heatkernel_normal_form [OF assms]
    by (simp add: uniform_of_scalar [where c = 1, OF T])
qed

theorem heatkernel_zero_uniform_witness:
  "accepted (state_of digraph_01) 0 \<and>
   fst (heatkernel 0 0 (state_of digraph_01)) =
     Inr \<lparr>influences = [(PyInt 0, Fin (1 / 2)), (PyInt 1, Fin (1 / 2))],
          dependences = [(PyInt 0, Fin (1 / 2)), (PyInt 1, Fin (1 / 2))]\<rparr>"
proof -
  have a: "accepted (state_of digraph_01) 0"
    by (rule accepted_state_of) (simp_all add: digraph_01_def)
  show ?thesis
    using a heatkernel_zero_uniform [OF a]
    by (simp add: heap_state_of length_nodes_digraph_01 py_range_2 replicate_2)
qed

text \<open>
  C9: a call of either function leaves the input graph object as it was, its class, nodes,
  edges and weights, also when the graph is undirected and a directed copy is built.
\<close>

theorem input_graph_unchanged:
  assumes "G < next_ref s"
  shows "heap (snd (heatkernel G k s)) G = heap s G \<and> heap (snd (pwp G k s)) G = heap s G"
proof -
  from assms have "G \<noteq> next_ref s" by simp
  then have "heap (snd (to_directed G s)) G = heap s G" by (rule heap_to_directed)
  with heatkernel_final_state [of G k s] pwp_final_state [of G k s] show ?thesis by auto
qed

text \<open>On the undirected graph with no edges the directed copy is a new object at reference 1.\<close>

theorem input_graph_unchanged_witness:
  "0 < next_ref (state_of edgeless3) \<and> \<not> is_directed (heap (state_of edgeless3) 0) \<and>
   heap (snd (heatkernel 0 1 (state_of edgeless3))) 0 = edgeless3 \<and>
   heap (snd (pwp 0 1 (state_of edgeless3))) 0 = edgeless3"
proof -
  have n: "0 < next_ref (state_of edgeless3)"
    by (simp add: state_of_def)
  have u: "\<not> is_directed (heap (state_of edgeless3) 0)"
    by (simp add: heap_state_of is_directed_def edgeless3_def)
  show ?thesis
    using n u input_graph_unchanged [OF n, of 1]
    by (simp add: heap_state_of)
qed

text \<open>
  C10: the rejection fires exactly when the imports succeed and the class of the graph is
  \<open>nx.MultiGraph\<close> or \<open>nx.MultiDiGraph\<close> itself; an instance of a subclass of
  \<open>nx.MultiGraph\<close> with parallel edges is not rejected, and both functions return a result
  for it.
\<close>

theorem rejection_by_exact_class:
  "(fst (heatkernel G k s) = Inl (Exception ''heatkernel() not defined for graphs with multiedges.'')
      \<longleftrightarrow> imports_ok s \<and> (gclass (heap s G) = MultiGraph \<or> gclass (heap s G) = MultiDiGraph))
   \<and> (fst (pwp G k s) = Inl (Exception ''pwp() not defined for graphs with multiedges.'')
      \<longleftrightarrow> imports_ok s \<and> (gclass (heap s G) = MultiGraph \<or> gclass (heap s G) = MultiDiGraph))
   \<and> (\<exists>name g. gclass g = Subclass name MultiGraph \<and> is_multigraph g \<and> has_parallel_edges g
         \<and> \<not> isl (fst (heatkernel 0 k (state_of g))) \<and> \<not> isl (fst (pwp 0 k (state_of g))))"
proof (intro conjI)
  show "fst (heatkernel G k s) = Inl (Exception ''heatkernel() not defined for graphs with multiedges.'')
      \<longleftrightarrow> imports_ok s \<and> (gclass (heap s G) = MultiGraph \<or> gclass (heap s G) = MultiDiGraph)"
    by (rule heatkernel_rejects_iff)
  show "fst (pwp G k s) = Inl (Exception ''pwp() not defined for graphs with multiedges.'')
      \<longleftrightarrow> imports_ok s \<and> (gclass (heap s G) = MultiGraph \<or> gclass (heap s G) = MultiDiGraph)"
    by (rule pwp_rejects_iff)
  have "gclass road_network = Subclass ''RoadNetwork'' MultiGraph"
    by (simp add: road_network_def)
  with road_network_facts accepted_returns [OF road_network_facts(1), of k]
  show "\<exists>name g. gclass g = Subclass name MultiGraph \<and> is_multigraph g \<and> has_parallel_edges g
         \<and> \<not> isl (fst (heatkernel 0 k (state_of g))) \<and> \<not> isl (fst (pwp 0 k (state_of g)))"
    by blast
qed

text \<open>
  The same nodes and edges are rejected in an instance of \<open>nx.MultiGraph\<close> itself and not in
  an instance of the subclass.
\<close>

theorem rejection_by_exact_class_witness:
  "fst (heatkernel 0 1 (state_of exact_multigraph)) =
     Inl (Exception ''heatkernel() not defined for graphs with multiedges.'') \<and>
   fst (pwp 0 1 (state_of exact_multigraph)) =
     Inl (Exception ''pwp() not defined for graphs with multiedges.'') \<and>
   fst (heatkernel 0 1 (state_of road_network)) \<noteq>
     Inl (Exception ''heatkernel() not defined for graphs with multiedges.'') \<and>
   fst (pwp 0 1 (state_of road_network)) \<noteq>
     Inl (Exception ''pwp() not defined for graphs with multiedges.'')"
proof -
  have i: "imports_ok (state_of g)" for g
    by (simp add: imports_ok_def state_of_def scipy_modules_def)
  have e: "gclass (heap (state_of exact_multigraph) 0) = MultiGraph"
    by (simp add: heap_state_of exact_multigraph_def)
  have r: "gclass (heap (state_of road_network) 0) \<noteq> MultiGraph"
    "gclass (heap (state_of road_network) 0) \<noteq> MultiDiGraph"
    by (simp_all add: heap_state_of road_network_def)
  show ?thesis
    using i e r rejection_by_exact_class [of 0 1 "state_of exact_multigraph"]
      rejection_by_exact_class [of 0 1 "state_of road_network"]
    by simp
qed

end
